theory Spec2Isabelle
  imports Complex_Main
begin

section \<open>Superkernel: metric engine and control loop\<close>

text \<open>
  A shallow embedding of \<^verbatim>\<open>core/kernel/superkernel.py\<close>,
  \<^verbatim>\<open>core/kernel/superkernel_zdl.py\<close> and \<^verbatim>\<open>core/oracle/tace_oracle.py\<close>.

  Numbers. Python's \<^verbatim>\<open>float\<close> is read as \<open>real\<close>: the arithmetic operations are
  taken without rounding. Statements that give exact values are therefore statements of
  real arithmetic (in IEEE-754 doubles \<^verbatim>\<open>0.8 + 0.02\<close> prints as
  \<^verbatim>\<open>0.8200000000000001\<close>, and \<^verbatim>\<open>0.4 + 0.3 + 0.2 + 0.1\<close> as
  \<^verbatim>\<open>0.9999999999999999\<close>). The range of doubles is modelled where the source
  leaves it by an exception: \<^verbatim>\<open>math.exp\<close> raises \<^verbatim>\<open>OverflowError\<close> above its
  largest argument and returns 0.0 below its smallest. Python's \<^verbatim>\<open>int\<close> is \<open>int\<close>.

  Exceptions. A function that can raise returns \<open>error + 'a\<close>, with \<open>Inl\<close> the
  exception. The raises of the source are the \<^verbatim>\<open>IndexError\<close> of
  \<^verbatim>\<open>totals[idx] += value\<close>, the \<^verbatim>\<open>OverflowError\<close> of \<^verbatim>\<open>math.exp\<close>, the \<^verbatim>\<open>ZeroDivisionError\<close> of a float division
  whose divisor is not tested before, the \<^verbatim>\<open>ValueError\<close> of \<^verbatim>\<open>time.sleep\<close> on a
  negative length, and whatever the external recorder raises.
  Console output (\<^verbatim>\<open>print\<close>) is kept only in the control loop, as a list of events.
\<close>

subsection \<open>Exceptions\<close>

datatype error = IndexError | ZeroDivisionError | OverflowError | ValueError | RecorderError string

fun and_then :: "error + 'a \<Rightarrow> ('a \<Rightarrow> error + 'b) \<Rightarrow> error + 'b" where
  "and_then (Inl e) f = Inl e"
| "and_then (Inr v) f = f v"

text \<open>A comprehension or generator whose body can raise: evaluated left to right, the
  first exception ends it.\<close>

fun try_map :: "('a \<Rightarrow> error + 'b) \<Rightarrow> 'a list \<Rightarrow> error + 'b list" where
  "try_map f [] = Inr []"
| "try_map f (x # xs) =
     and_then (f x) (\<lambda>y. and_then (try_map f xs) (\<lambda>ys. Inr (y # ys)))"

text \<open>Float division \<^verbatim>\<open>a / b\<close>.\<close>

definition py_div :: "real \<Rightarrow> real \<Rightarrow> error + real" where
  "py_div a b = (if b = 0 then Inl ZeroDivisionError else Inr (a / b))"

text \<open>\<^verbatim>\<open>math.exp(x)\<close> on doubles: the largest argument with a finite result is
  \<^verbatim>\<open>709.782712893384\<close> (the logarithm of the largest double), above it
  \<^verbatim>\<open>OverflowError\<close> is raised; from \<^verbatim>\<open>-745.1332191019412\<close> down the result
  is \<^verbatim>\<open>0.0\<close>, and \<^verbatim>\<open>-745.1332191019411\<close> still gives the smallest positive
  double. The two bounds below separate these neighbouring doubles.\<close>

definition exp_max_arg :: real where
  "exp_max_arg = 709.782712893384"

definition exp_min_arg :: real where
  "exp_min_arg = - 745.13321910194115"

definition py_exp :: "real \<Rightarrow> error + real" where
  "py_exp x =
     (if x > exp_max_arg then Inl OverflowError
      else if x < exp_min_arg then Inr 0
      else Inr (exp x))"

text \<open>\<^verbatim>\<open>int(x)\<close> on a float truncates towards zero.\<close>

definition py_int :: "real \<Rightarrow> int" where
  "py_int x = (if 0 \<le> x then \<lfloor>x\<rfloor> else \<lceil>x\<rceil>)"

text \<open>The slice \<^verbatim>\<open>xs[cut:]\<close>: a negative start counts from the end, and a
  start before the beginning is the beginning.\<close>

definition slice_from :: "'a list \<Rightarrow> int \<Rightarrow> 'a list" where
  "slice_from xs start =
     (if 0 \<le> start then drop (nat start) xs else drop (length xs - nat (- start)) xs)"

text \<open>The slice \<^verbatim>\<open>xs[-n:]\<close> for a positive literal \<^verbatim>\<open>n\<close>: the last \<open>n\<close> elements.\<close>

definition last_n :: "nat \<Rightarrow> 'a list \<Rightarrow> 'a list" where
  "last_n n xs = drop (length xs - n) xs"

subsection \<open>Helpers of superkernel.py\<close>

text \<open>\<^verbatim>\<open>_mean\<close>: one pass that accumulates the total and the count.\<close>

definition mean :: "real list \<Rightarrow> real" where
  "mean vals =
     (let (total, count) =
            fold (\<lambda>val (total, count). (total + val, count + 1)) vals (0, 0 :: nat)
      in if count \<noteq> 0 then total / real count else 0)"

definition euclidean_distance :: "real list \<Rightarrow> real list \<Rightarrow> real" where
  "euclidean_distance a b = sqrt (sum_list (map (\<lambda>(x, y). (x - y) ^ 2) (zip a b)))"

definition cosine_similarity :: "real list \<Rightarrow> real list \<Rightarrow> error + real" where
  "cosine_similarity a b =
     (let dot = sum_list (map (\<lambda>(x, y). x * y) (zip a b));
          norm_a = sqrt (sum_list (map (\<lambda>x. x * x) a));
          norm_b = sqrt (sum_list (map (\<lambda>y. y * y) b))
      in if norm_a = 0 \<or> norm_b = 0 then Inr 0 else py_div dot (norm_a * norm_b))"

text \<open>The inner loop of \<^verbatim>\<open>_centroid\<close>, \<^verbatim>\<open>for idx, value in enumerate(vector):
  totals[idx] += value\<close>, from index \<open>idx\<close> on. Writing past the end of \<^verbatim>\<open>totals\<close>
  raises.\<close>

fun add_to_totals :: "real list \<Rightarrow> nat \<Rightarrow> real list \<Rightarrow> error + real list" where
  "add_to_totals totals idx [] = Inr totals"
| "add_to_totals totals idx (val # rest) =
     (if idx < length totals
      then add_to_totals (totals[idx := totals ! idx + val]) (Suc idx) rest
      else Inl IndexError)"

text \<open>The outer loop, \<^verbatim>\<open>for vector in vectors\<close>.\<close>

fun sum_vectors :: "real list \<Rightarrow> real list list \<Rightarrow> error + real list" where
  "sum_vectors totals [] = Inr totals"
| "sum_vectors totals (vector # rest) =
     and_then (add_to_totals totals 0 vector) (\<lambda>totals'. sum_vectors totals' rest)"

definition centroid :: "real list list \<Rightarrow> error + real list" where
  "centroid vecs =
     (case vecs of
        [] \<Rightarrow> Inr []
      | first # _ \<Rightarrow>
          and_then (sum_vectors (replicate (length first) 0) vecs)
            (\<lambda>totals. Inr (map (\<lambda>val. val / real (length vecs)) totals)))"

subsection \<open>The class Superkernel\<close>

record superkernel =
  vectors :: "real list list"
  losses :: "real list"
  nu :: real
  lam :: real
  entropy_threshold :: real
  intervention_count :: int
  phi_pow :: int

text \<open>The dataclass defaults: \<^verbatim>\<open>Superkernel()\<close>.\<close>

definition Superkernel :: superkernel where
  "Superkernel =
     \<lparr>vectors = [], losses = [], nu = 0.8, lam = 1.2, entropy_threshold = 0.65,
      intervention_count = 0, phi_pow = 17\<rparr>"

definition dynamic_cvar :: "superkernel \<Rightarrow> real list \<Rightarrow> real \<Rightarrow> error + real" where
  "dynamic_cvar self ls alpha =
     (if ls = [] then Inr 0
      else
        and_then (try_map (\<lambda>loss. py_exp (lam self * loss)) ls)
          (\<lambda>weights.
             let total_weight = sum_list weights
             in and_then (try_map (\<lambda>weight. py_div weight total_weight) weights)
                  (\<lambda>normalized_weights.
                     let weighted_losses =
                           sort (map (\<lambda>(loss, weight). loss * weight) (zip ls normalized_weights));
                         cut_idx = py_int ((1 - alpha) * real (length weighted_losses))
                     in Inr (mean (slice_from weighted_losses cut_idx)))))"

definition psi :: "superkernel \<Rightarrow> error + real" where
  "psi self =
     (if length (vectors self) < 2 then Inr 1
      else
        and_then (centroid (vectors self))
          (\<lambda>center.
             and_then (try_map (\<lambda>vector. cosine_similarity vector center) (vectors self))
               (\<lambda>sims. Inr (mean sims))))"

definition theta :: "superkernel \<Rightarrow> error + real" where
  "theta self =
     (if length (vectors self) = 0 then Inr 1
      else
        and_then (centroid (vectors self))
          (\<lambda>center.
             let dist = mean (map (\<lambda>vector. euclidean_distance vector center) (vectors self))
             in and_then (py_div 1 (dist + 1 / 10 ^ 9)) (\<lambda>r. Inr (min 1 r))))"

text \<open>The expression \<^verbatim>\<open>self.dynamic_cvar(self.losses[-1000:]) if self.losses else 0.0\<close>,
  which \<^verbatim>\<open>omega_score\<close>, \<^verbatim>\<open>hamiltonian\<close> and \<^verbatim>\<open>assess_system_health\<close> each
  evaluate, with the default \<^verbatim>\<open>alpha = 0.95\<close>.\<close>

definition recent_cvar :: "superkernel \<Rightarrow> error + real" where
  "recent_cvar self =
     (if losses self \<noteq> [] then dynamic_cvar self (last_n 1000 (losses self)) 0.95 else Inr 0)"

definition omega_score :: "superkernel \<Rightarrow> error + real" where
  "omega_score self =
     and_then (psi self) (\<lambda>psi_val.
     and_then (theta self) (\<lambda>theta_val.
     and_then (recent_cvar self) (\<lambda>cvar.
       let pole = 1 in Inr (0.4 * psi_val + 0.3 * theta_val + 0.2 * (1 - cvar) + 0.1 * pole))))"

definition hamiltonian :: "superkernel \<Rightarrow> error + real" where
  "hamiltonian self =
     and_then (omega_score self) (\<lambda>omega.
     and_then (recent_cvar self) (\<lambda>cvar.
     and_then (py_div 1 (omega ^ 2 + 1 / 10 ^ 9)) (\<lambda>q. Inr (q - nu self * cvar))))"

definition ingest :: "superkernel \<Rightarrow> real list \<Rightarrow> real \<Rightarrow> superkernel" where
  "ingest self vector loss =
     (let self1 = self\<lparr>vectors := vectors self @ [vector], losses := losses self @ [loss]\<rparr>
      in if length (vectors self1) > 10000
         then self1\<lparr>vectors := last_n 10000 (vectors self1),
                    losses := last_n 10000 (losses self1)\<rparr>
         else self1)"

text \<open>\<^verbatim>\<open>evolve\<close>: an exception of \<^verbatim>\<open>hamiltonian\<close> leaves the object as it was.\<close>

definition evolve :: "superkernel \<Rightarrow> error + superkernel" where
  "evolve self =
     and_then (hamiltonian self) (\<lambda>h.
       if h > 0.1
       then Inr (self\<lparr>intervention_count := intervention_count self + 1,
                      nu := min 0.95 (nu self + 0.02),
                      lam := min 1.5 (lam self + 0.05)\<rparr>)
       else Inr self)"

subsection \<open>The class SuperkernelZDL\<close>

record superkernel_zdl =
  z_vectors :: "real list list"
  z_losses :: "real list"
  z_nu :: real
  z_lam :: real
  z_intervention_count :: int

definition SuperkernelZDL :: superkernel_zdl where
  "SuperkernelZDL =
     \<lparr>z_vectors = [], z_losses = [], z_nu = 0.80, z_lam = 1.20, z_intervention_count = 0\<rparr>"

definition zdl_dot :: "real list \<Rightarrow> real list \<Rightarrow> real" where
  "zdl_dot a b = sum_list (map (\<lambda>(x, y). x * y) (zip a b))"

definition zdl_norm :: "real list \<Rightarrow> real" where
  "zdl_norm v = sqrt (sum_list (map (\<lambda>x. x * x) v))"

definition zdl_cosine_similarity :: "real list \<Rightarrow> real list \<Rightarrow> error + real" where
  "zdl_cosine_similarity a b =
     (let na = zdl_norm a; nb = zdl_norm b
      in if na = 0 \<or> nb = 0 then Inr 0 else py_div (zdl_dot a b) (na * nb + 1 / 10 ^ 9))"

text \<open>\<^verbatim>\<open>zip(*vectors)\<close>: the columns, as many as the shortest vector has entries.\<close>

definition zip_star :: "'a list list \<Rightarrow> 'a list list" where
  "zip_star xss =
     (if xss = [] then []
      else map (\<lambda>i. map (\<lambda>xs. xs ! i) xss) [0 ..< Min (set (map length xss))])"

definition zdl_centroid :: "superkernel_zdl \<Rightarrow> real list" where
  "zdl_centroid self =
     (if z_vectors self = [] then []
      else map (\<lambda>col. sum_list col / real (length (z_vectors self))) (zip_star (z_vectors self)))"

definition zdl_psi :: "superkernel_zdl \<Rightarrow> error + real" where
  "zdl_psi self =
     (if length (z_vectors self) < 2 then Inr 1
      else
        let centroid_val = zdl_centroid self
        in and_then (try_map (\<lambda>v. zdl_cosine_similarity v centroid_val) (z_vectors self))
             (\<lambda>sims. Inr (if sims \<noteq> [] then sum_list sims / real (length sims) else 0)))"

definition zdl_theta :: "superkernel_zdl \<Rightarrow> error + real" where
  "zdl_theta self =
     (if length (z_vectors self) = 0 then Inr 1
      else
        let centroid_val = zdl_centroid self;
            dists = map (\<lambda>v. sqrt (sum_list (map (\<lambda>(vi, ci). (vi - ci) ^ 2) (zip v centroid_val))))
                      (z_vectors self);
            mean_dist = sum_list dists / real (length dists)
        in and_then (py_div 1 (mean_dist + 1 / 10 ^ 9)) (\<lambda>r. Inr (min 1 r)))"

definition zdl_dynamic_cvar :: "superkernel_zdl \<Rightarrow> real \<Rightarrow> real" where
  "zdl_dynamic_cvar self alpha =
     (if z_losses self = [] then 0
      else
        let sorted_losses = sort (z_losses self);
            cut_idx = py_int (real (length sorted_losses) * alpha);
            tail = slice_from sorted_losses cut_idx
        in if tail \<noteq> [] then sum_list tail / real (length tail) else 0)"

definition zdl_omega :: "superkernel_zdl \<Rightarrow> error + real" where
  "zdl_omega self =
     and_then (zdl_psi self) (\<lambda>psi_val.
     and_then (zdl_theta self) (\<lambda>theta_val.
       let cvar = zdl_dynamic_cvar self 0.95
       in Inr (0.4 * psi_val + 0.3 * theta_val + 0.2 * (1 - cvar) + 0.1 * 1)))"

definition zdl_hamiltonian :: "superkernel_zdl \<Rightarrow> error + real" where
  "zdl_hamiltonian self =
     and_then (zdl_omega self) (\<lambda>omega_val.
       let cvar = zdl_dynamic_cvar self 0.95
       in and_then (py_div 1 (omega_val * omega_val + 1 / 10 ^ 9))
            (\<lambda>q. Inr (q - z_nu self * cvar)))"

definition zdl_ingest :: "superkernel_zdl \<Rightarrow> real list \<Rightarrow> real \<Rightarrow> superkernel_zdl" where
  "zdl_ingest self vector loss =
     (let self1 = self\<lparr>z_vectors := z_vectors self @ [vector],
                       z_losses := z_losses self @ [loss]\<rparr>
      in if length (z_vectors self1) > 10000
         then self1\<lparr>z_vectors := last_n 10000 (z_vectors self1),
                    z_losses := last_n 10000 (z_losses self1)\<rparr>
         else self1)"

definition zdl_evolve :: "superkernel_zdl \<Rightarrow> error + superkernel_zdl" where
  "zdl_evolve self =
     and_then (zdl_hamiltonian self) (\<lambda>h.
       if h > 0.1
       then Inr (self\<lparr>z_nu := min 0.95 (z_nu self + 0.02),
                      z_lam := min 1.5 (z_lam self + 0.05),
                      z_intervention_count := z_intervention_count self + 1\<rparr>)
       else Inr self)"

subsection \<open>The class TACEOracle\<close>

text \<open>The dictionary of \<^verbatim>\<open>assess_system_health\<close>, and a history entry
  \<^verbatim>\<open>{"timestamp": time.time(), **health}\<close>.\<close>

record health =
  h_omega :: real
  h_hamiltonian :: real
  h_psi :: real
  h_theta :: real
  h_cvar :: real
  h_intervention_count :: int

record snapshot = health +
  timestamp :: real

definition assess_system_health :: "superkernel \<Rightarrow> error + health" where
  "assess_system_health self =
     and_then (omega_score self) (\<lambda>omega.
     and_then (hamiltonian self) (\<lambda>h.
     and_then (psi self) (\<lambda>psi_val.
     and_then (theta self) (\<lambda>theta_val.
     and_then (recent_cvar self) (\<lambda>cvar.
       Inr \<lparr>h_omega = omega, h_hamiltonian = h, h_psi = psi_val, h_theta = theta_val,
            h_cvar = cvar, h_intervention_count = intervention_count self\<rparr>)))))"

text \<open>The external recorder, \<^verbatim>\<open>integrator.register_metric_on_chain(kernel, metric_name,
  value, contract_address)\<close>: it returns a transaction identifier or raises. It is a
  parameter of the model.\<close>

type_synonym integrator = "superkernel \<Rightarrow> string \<Rightarrow> real \<Rightarrow> string \<Rightarrow> error + string"

record tace_oracle =
  kernel :: superkernel
  pose_contract_address :: string
  interval_seconds :: int
  min_omega_gain :: real
  history :: "snapshot list"
  running :: bool

text \<open>\<^verbatim>\<open>TACEOracle(kernel, integrator, pose_contract_address)\<close> with the default interval
  and gain.\<close>

definition TACEOracle :: "superkernel \<Rightarrow> string \<Rightarrow> tace_oracle" where
  "TACEOracle k address =
     \<lparr>kernel = k, pose_contract_address = address, interval_seconds = 30,
      min_omega_gain = 0.0005, history = [], running = False\<rparr>"

text \<open>What the oracle does that can be seen from outside: the call of the recorder, its
  two \<^verbatim>\<open>print\<close>s and \<^verbatim>\<open>time.sleep\<close>.\<close>

datatype event =
    Register_call string real string
  | Print_recorded real string
  | Print_error error
  | Slept int

text \<open>\<^verbatim>\<open>_record_state\<close>; \<open>now\<close> is the reading of \<^verbatim>\<open>time.time()\<close>.\<close>

definition record_state :: "tace_oracle \<Rightarrow> real \<Rightarrow> error + tace_oracle" where
  "record_state self now =
     and_then (assess_system_health (kernel self)) (\<lambda>hl.
       let entry = \<lparr>h_omega = h_omega hl, h_hamiltonian = h_hamiltonian hl, h_psi = h_psi hl,
                    h_theta = h_theta hl, h_cvar = h_cvar hl,
                    h_intervention_count = h_intervention_count hl, timestamp = now\<rparr>;
           hist = history self @ [entry]
       in Inr (self\<lparr>history := (if length hist > 1000 then last_n 1000 hist else hist)\<rparr>))"

definition compute_d_omega_dt :: "tace_oracle \<Rightarrow> real" where
  "compute_d_omega_dt self =
     (if length (history self) < 2 then 0
      else
        let n = length (history self);
            dt = timestamp (history self ! (n - 1)) - timestamp (history self ! (n - 2));
            domega = h_omega (history self ! (n - 1)) - h_omega (history self ! (n - 2))
        in if dt > 0 then domega / dt else 0)"

text \<open>\<^verbatim>\<open>_trigger_if_needed\<close>. The result is the object afterwards, the events, and the
  exception that left the method, if any.\<close>

definition trigger_if_needed :: "integrator \<Rightarrow> tace_oracle \<Rightarrow> real \<Rightarrow> tace_oracle \<times> event list \<times> error option" where
  "trigger_if_needed integ self now =
     (case record_state self now of
        Inl exc \<Rightarrow> (self, [], Some exc)
      | Inr self1 \<Rightarrow>
          let d_omega_dt = compute_d_omega_dt self1
          in if d_omega_dt \<le> 0 then (self1, [], None)
             else
               let n = length (history self1);
                   omega_gain = (if n \<ge> 2
                                 then h_omega (history self1 ! (n - 1)) - h_omega (history self1 ! (n - 2))
                                 else 0)
               in if omega_gain \<ge> min_omega_gain self1
                  then
                    let value_now = h_omega (history self1 ! (n - 1));
                        call = Register_call ''TACE_Evolution'' value_now (pose_contract_address self1)
                    in case integ (kernel self1) ''TACE_Evolution'' value_now (pose_contract_address self1) of
                         Inl exc \<Rightarrow> (self1, [call], Some exc)
                       | Inr tx_hash \<Rightarrow> (self1, [call, Print_recorded omega_gain tx_hash], None)
                  else (self1, [], None))"







text \<open>\<^verbatim>\<open>start\<close> and \<^verbatim>\<open>stop\<close>, as far as the flag goes; the thread is the caller of
  \<open>loop\<close>.\<close>

definition start :: "tace_oracle \<Rightarrow> tace_oracle" where
  "start self = (if running self then self else self\<lparr>running := True\<rparr>)"

definition stop :: "tace_oracle \<Rightarrow> tace_oracle" where
  "stop self = self\<lparr>running := False\<rparr>"

subsection \<open>Sequences of calls\<close>

text \<open>A caller that ingests a list of samples, one \<^verbatim>\<open>ingest(vector, loss)\<close> each, in
  order.\<close>

definition ingest_all :: "superkernel \<Rightarrow> (real list \<times> real) list \<Rightarrow> superkernel" where
  "ingest_all self samples = foldl (\<lambda>k (vector, loss). ingest k vector loss) self samples"

definition zdl_ingest_all :: "superkernel_zdl \<Rightarrow> (real list \<times> real) list \<Rightarrow> superkernel_zdl" where
  "zdl_ingest_all self samples = foldl (\<lambda>k (vector, loss). zdl_ingest k vector loss) self samples"

text \<open>A caller that mixes \<^verbatim>\<open>ingest\<close> and \<^verbatim>\<open>evolve\<close>. An \<^verbatim>\<open>evolve\<close> that raises
  has not touched the object, and the caller goes on.\<close>

datatype call = Ingest "real list" real | Evolve

fun apply_call :: "superkernel \<Rightarrow> call \<Rightarrow> superkernel" where
  "apply_call self (Ingest vector loss) = ingest self vector loss"
| "apply_call self Evolve = (case evolve self of Inl exc \<Rightarrow> self | Inr self' \<Rightarrow> self')"

definition run_calls :: "superkernel \<Rightarrow> call list \<Rightarrow> superkernel" where
  "run_calls self calls = foldl apply_call self calls"

fun zdl_apply_call :: "superkernel_zdl \<Rightarrow> call \<Rightarrow> superkernel_zdl" where
  "zdl_apply_call self (Ingest vector loss) = zdl_ingest self vector loss"
| "zdl_apply_call self Evolve = (case zdl_evolve self of Inl exc \<Rightarrow> self | Inr self' \<Rightarrow> self')"

definition zdl_run_calls :: "superkernel_zdl \<Rightarrow> call list \<Rightarrow> superkernel_zdl" where
  "zdl_run_calls self calls = foldl zdl_apply_call self calls"

subsection \<open>The tail risk as the specification words it\<close>

text \<open>Over the most recent 1000 stored losses: weight each loss by \<open>exp (lambda * loss)\<close>,
  normalise the weights to sum to 1, multiply each loss by its normalised weight, sort
  ascending, and take the mean of the elements from index \<open>\<lfloor>(1 - alpha) * n\<rfloor>\<close> to the
  end; 0 when no losses are stored.\<close>

definition spec_tail_risk :: "real \<Rightarrow> real list \<Rightarrow> real \<Rightarrow> real" where
  "spec_tail_risk lambda stored alpha =
     (if stored = [] then 0
      else
        let recent = last_n 1000 stored;
            n = length recent;
            weight = (\<lambda>loss. exp (lambda * loss));
            total = (\<Sum>loss \<leftarrow> recent. weight loss);
            weighted = map (\<lambda>loss. loss * (weight loss / total)) recent;
            tail = drop (nat \<lfloor>(1 - alpha) * real n\<rfloor>) (sort weighted)
        in sum_list tail / real (length tail))"

section \<open>Properties\<close>

subsection \<open>Helper facts\<close>

lemma mean_fold:
  "fold (\<lambda>val (total, count). (total + val, count + 1)) xs (t :: real, c :: nat)
     = (t + sum_list xs, c + length xs)"
  by (induction xs arbitrary: t c) auto

lemma mean_eq: "mean xs = (if xs = [] then 0 else sum_list xs / real (length xs))"
  using mean_fold [of xs 0 0] by (simp add: mean_def)

lemma recent_cvar_empty: "losses self = [] \<Longrightarrow> recent_cvar self = Inr 0"
  by (simp add: recent_cvar_def)

lemma omega_score_empty:
  "vectors self = [] \<Longrightarrow> losses self = [] \<Longrightarrow> omega_score self = Inr 1"
  by (simp add: omega_score_def psi_def theta_def recent_cvar_def)

lemma hamiltonian_empty:
  "vectors self = [] \<Longrightarrow> losses self = [] \<Longrightarrow> hamiltonian self = Inr (1 / (1 + 1 / 10 ^ 9))"
  by (simp add: hamiltonian_def omega_score_empty recent_cvar_empty py_div_def)

lemma zdl_omega_empty:
  "z_vectors self = [] \<Longrightarrow> z_losses self = [] \<Longrightarrow> zdl_omega self = Inr 1"
  by (simp add: zdl_omega_def zdl_psi_def zdl_theta_def zdl_dynamic_cvar_def)

lemma zdl_hamiltonian_empty:
  "z_vectors self = [] \<Longrightarrow> z_losses self = [] \<Longrightarrow>
     zdl_hamiltonian self = Inr (1 / (1 + 1 / 10 ^ 9))"
  by (simp add: zdl_hamiltonian_def zdl_omega_empty zdl_dynamic_cvar_def py_div_def)

subsection \<open>The first evolve of a fresh kernel\<close>


subsection \<open>Evolve at the caps\<close>

text \<open>
  The claim C1 as the specification words it, that \<^verbatim>\<open>evolve()\<close> at the caps
  \<open>nu = 0.95\<close>, \<open>lambda = 1.5\<close> does not increase the intervention counter, fails: on
  an empty kernel at the caps the instability is above 0.1 and the counter goes from 0 to
  1, in both kernels.
\<close>

theorem evolve_saturated_counts:
  "evolve (Superkernel\<lparr>nu := 0.95, lam := 1.5\<rparr>)
     = Inr (Superkernel\<lparr>nu := 0.95, lam := 1.5, intervention_count := 1\<rparr>)
   \<and> intervention_count (Superkernel\<lparr>nu := 0.95, lam := 1.5\<rparr>) = 0
   \<and> zdl_evolve (SuperkernelZDL\<lparr>z_nu := 0.95, z_lam := 1.5\<rparr>)
     = Inr (SuperkernelZDL\<lparr>z_nu := 0.95, z_lam := 1.5, z_intervention_count := 1\<rparr>)
   \<and> z_intervention_count (SuperkernelZDL\<lparr>z_nu := 0.95, z_lam := 1.5\<rparr>) = 0"
proof -
  have "hamiltonian (Superkernel\<lparr>nu := 0.95, lam := 1.5\<rparr>) = Inr (1 / (1 + 1 / 10 ^ 9))"
    by (rule hamiltonian_empty) (simp_all add: Superkernel_def)
  moreover have "zdl_hamiltonian (SuperkernelZDL\<lparr>z_nu := 0.95, z_lam := 1.5\<rparr>) = Inr (1 / (1 + 1 / 10 ^ 9))"
    by (rule zdl_hamiltonian_empty) (simp_all add: SuperkernelZDL_def)
  ultimately show ?thesis
    by (simp add: evolve_def zdl_evolve_def) (simp add: Superkernel_def SuperkernelZDL_def)
qed

text \<open>
  C1, amended. In every kernel state with both parameters at their caps, \<^verbatim>\<open>evolve()\<close>
  leaves \<open>nu\<close>, \<open>lambda\<close> and the histories as they are; the intervention counter still
  goes up by one when the instability is above 0.1, and nothing changes otherwise. An
  exception of \<^verbatim>\<open>hamiltonian\<close> is the exception of \<^verbatim>\<open>evolve\<close>. Both kernels.
\<close>

theorem evolve_saturated:
  "(nu self = 0.95 \<and> lam self = 1.5 \<longrightarrow>
      evolve self =
        and_then (hamiltonian self)
          (\<lambda>h. Inr (if h > 0.1 then self\<lparr>intervention_count := intervention_count self + 1\<rparr>
                     else self)))
   \<and> (z_nu z = 0.95 \<and> z_lam z = 1.5 \<longrightarrow>
      zdl_evolve z =
        and_then (zdl_hamiltonian z)
          (\<lambda>h. Inr (if h > 0.1 then z\<lparr>z_intervention_count := z_intervention_count z + 1\<rparr>
                     else z)))"
proof (intro conjI impI)
  assume "nu self = 0.95 \<and> lam self = 1.5"
  then show "evolve self =
        and_then (hamiltonian self)
          (\<lambda>h. Inr (if h > 0.1 then self\<lparr>intervention_count := intervention_count self + 1\<rparr>
                     else self))"
    by (cases "hamiltonian self") (auto simp: evolve_def)
next
  assume "z_nu z = 0.95 \<and> z_lam z = 1.5"
  then show "zdl_evolve z =
        and_then (zdl_hamiltonian z)
          (\<lambda>h. Inr (if h > 0.1 then z\<lparr>z_intervention_count := z_intervention_count z + 1\<rparr>
                     else z))"
    by (cases "zdl_hamiltonian z") (auto simp: zdl_evolve_def)
qed

theorem evolve_saturated_witness:
  "nu (Superkernel\<lparr>nu := 0.95, lam := 1.5\<rparr>) = 0.95 \<and> lam (Superkernel\<lparr>nu := 0.95, lam := 1.5\<rparr>) = 1.5
   \<and> z_nu (SuperkernelZDL\<lparr>z_nu := 0.95, z_lam := 1.5\<rparr>) = 0.95
   \<and> z_lam (SuperkernelZDL\<lparr>z_nu := 0.95, z_lam := 1.5\<rparr>) = 1.5
   \<and> evolve (Superkernel\<lparr>nu := 0.95, lam := 1.5\<rparr>)
       = Inr (Superkernel\<lparr>nu := 0.95, lam := 1.5, intervention_count := 1\<rparr>)
   \<and> zdl_evolve (SuperkernelZDL\<lparr>z_nu := 0.95, z_lam := 1.5\<rparr>)
       = Inr (SuperkernelZDL\<lparr>z_nu := 0.95, z_lam := 1.5, z_intervention_count := 1\<rparr>)"
proof -
  have h: "hamiltonian (Superkernel\<lparr>nu := 0.95, lam := 1.5\<rparr>) = Inr (1 / (1 + 1 / 10 ^ 9))"
    by (rule hamiltonian_empty) (simp_all add: Superkernel_def)
  have zh: "zdl_hamiltonian (SuperkernelZDL\<lparr>z_nu := 0.95, z_lam := 1.5\<rparr>) = Inr (1 / (1 + 1 / 10 ^ 9))"
    by (rule zdl_hamiltonian_empty) (simp_all add: SuperkernelZDL_def)
  show ?thesis
    using evolve_saturated [of "Superkernel\<lparr>nu := 0.95, lam := 1.5\<rparr>"
        "SuperkernelZDL\<lparr>z_nu := 0.95, z_lam := 1.5\<rparr>"] h zh
    by (simp add: Superkernel_def SuperkernelZDL_def)
qed

subsection \<open>The two tail risks\<close>

lemma py_exp_in_range: "exp_min_arg \<le> x \<Longrightarrow> x \<le> exp_max_arg \<Longrightarrow> py_exp x = Inr (exp x)"
  by (simp add: py_exp_def)

lemma exp_args_ordered: "exp_min_arg < 0 \<and> 0 < exp_max_arg"
  by (simp add: exp_min_arg_def exp_max_arg_def)

lemma dynamic_cvar_two_ones:
  "dynamic_cvar self [1, 1] 0.95 =
     (if lam self > exp_max_arg then Inl OverflowError
      else if lam self < exp_min_arg then Inl ZeroDivisionError
      else Inr (1 / 2))"
  by (simp add: dynamic_cvar_def py_exp_def py_div_def mean_eq py_int_def slice_from_def Let_def)

text \<open>
  C2. The two tail-risk implementations are not numerically equivalent: with
  \<open>alpha = 0.95\<close>, on the stored losses \<open>[1, 1]\<close> \<^verbatim>\<open>Superkernel.dynamic_cvar\<close> returns
  1/2 (each loss times its normalised weight 1/2, cut index 0) for every \<open>lambda\<close> in the
  range of \<^verbatim>\<open>math.exp\<close>, and raises outside it, while
  \<^verbatim>\<open>SuperkernelZDL.dynamic_cvar\<close> returns 1 (the raw losses from cut index 1). So for
  every pair of kernels there is a loss sequence on which the two differ.
\<close>

theorem tail_risk_implementations_differ:
  "dynamic_cvar self [1, 1] 0.95 =
     (if lam self > exp_max_arg then Inl OverflowError
      else if lam self < exp_min_arg then Inl ZeroDivisionError
      else Inr (1 / 2))
   \<and> dynamic_cvar Superkernel [1, 1] 0.95 = Inr (1 / 2)
   \<and> zdl_dynamic_cvar (z\<lparr>z_losses := [1, 1]\<rparr>) 0.95 = 1
   \<and> (\<exists>ls. dynamic_cvar self ls 0.95 \<noteq> Inr (zdl_dynamic_cvar (z\<lparr>z_losses := ls\<rparr>) 0.95))"
proof -
  have a: "dynamic_cvar self [1, 1] 0.95 =
     (if lam self > exp_max_arg then Inl OverflowError
      else if lam self < exp_min_arg then Inl ZeroDivisionError
      else Inr (1 / 2))"
    by (rule dynamic_cvar_two_ones)
  have f: "dynamic_cvar Superkernel [1, 1] 0.95 = Inr (1 / 2)"
    using dynamic_cvar_two_ones [of Superkernel]
    by (simp add: Superkernel_def exp_min_arg_def exp_max_arg_def)
  have b: "zdl_dynamic_cvar (z\<lparr>z_losses := [1, 1]\<rparr>) 0.95 = 1"
    by (simp add: zdl_dynamic_cvar_def py_int_def slice_from_def Let_def)
  have "dynamic_cvar self [1, 1] 0.95 \<noteq> Inr (zdl_dynamic_cvar (z\<lparr>z_losses := [1, 1]\<rparr>) 0.95)"
    by (simp only: a b) simp
  then show ?thesis using a f b by blast
qed

subsection \<open>Degenerate inputs\<close>

text \<open>
  C8. \<^verbatim>\<open>_psi\<close> (cohesion) returns 1 whenever fewer than two vectors are stored,
  \<^verbatim>\<open>_theta\<close> (dispersion) returns 1 when none is stored, and the cosine similarity of
  any vector with a vector of norm zero is 0, on either side. Both kernels.
\<close>

theorem degenerate_inputs:
  "(length (vectors self) < 2 \<longrightarrow> psi self = Inr 1)
   \<and> (length (vectors self) = 0 \<longrightarrow> theta self = Inr 1)
   \<and> (sqrt (sum_list (map (\<lambda>y. y * y) b)) = 0 \<longrightarrow>
        cosine_similarity a b = Inr 0 \<and> cosine_similarity b a = Inr 0)
   \<and> (length (z_vectors z) < 2 \<longrightarrow> zdl_psi z = Inr 1)
   \<and> (length (z_vectors z) = 0 \<longrightarrow> zdl_theta z = Inr 1)
   \<and> (zdl_norm b = 0 \<longrightarrow>
        zdl_cosine_similarity a b = Inr 0 \<and> zdl_cosine_similarity b a = Inr 0)"
  by (simp add: psi_def theta_def cosine_similarity_def zdl_psi_def zdl_theta_def
      zdl_cosine_similarity_def Let_def)

theorem degenerate_inputs_witness:
  "length (vectors (Superkernel\<lparr>vectors := [[3, 4]]\<rparr>)) < 2
   \<and> psi (Superkernel\<lparr>vectors := [[3, 4]]\<rparr>) = Inr 1
   \<and> length (vectors Superkernel) = 0 \<and> theta Superkernel = Inr 1
   \<and> sqrt (sum_list (map (\<lambda>y. y * y) [0, 0 :: real])) = 0
   \<and> cosine_similarity [3, 4] [0, 0] = Inr 0 \<and> cosine_similarity [0, 0] [3, 4] = Inr 0
   \<and> length (z_vectors (SuperkernelZDL\<lparr>z_vectors := [[3, 4]]\<rparr>)) < 2
   \<and> zdl_psi (SuperkernelZDL\<lparr>z_vectors := [[3, 4]]\<rparr>) = Inr 1
   \<and> length (z_vectors SuperkernelZDL) = 0 \<and> zdl_theta SuperkernelZDL = Inr 1
   \<and> zdl_norm [0, 0] = 0
   \<and> zdl_cosine_similarity [3, 4] [0, 0] = Inr 0 \<and> zdl_cosine_similarity [0, 0] [3, 4] = Inr 0"
proof -
  have n: "sqrt (sum_list (map (\<lambda>y. y * y) [0, 0 :: real])) = 0" "zdl_norm [0, 0] = 0"
    by (simp_all add: zdl_norm_def)
  have l: "length (vectors (Superkernel\<lparr>vectors := [[3, 4]]\<rparr>)) < 2"
    "length (vectors Superkernel) = 0"
    "length (z_vectors (SuperkernelZDL\<lparr>z_vectors := [[3, 4]]\<rparr>)) < 2"
    "length (z_vectors SuperkernelZDL) = 0"
    by (simp_all add: Superkernel_def SuperkernelZDL_def)
  show ?thesis
    using n l
      degenerate_inputs [of "Superkernel\<lparr>vectors := [[3, 4]]\<rparr>" "[0, 0]" "[3, 4]"
        "SuperkernelZDL\<lparr>z_vectors := [[3, 4]]\<rparr>"]
      degenerate_inputs [of Superkernel "[0, 0]" "[3, 4]" SuperkernelZDL]
    by simp
qed

subsection \<open>The sliding window of ingest\<close>

lemma last_n_short: "length xs \<le> n \<Longrightarrow> last_n n xs = xs"
  by (simp add: last_n_def)

lemma length_last_n: "length (last_n n xs) = min n (length xs)"
  by (simp add: last_n_def)

lemma map_last_n: "map f (last_n n xs) = last_n n (map f xs)"
  by (simp add: last_n_def drop_map)

lemma last_n_snoc: "0 < n \<Longrightarrow> last_n n (last_n n xs @ [x]) = last_n n (xs @ [x])"
proof -
  assume n: "0 < n"
  have "Suc (length xs) - (length xs - n + n) + (length xs - n) = Suc (length xs) - n"
    using n by arith
  then show ?thesis
    by (simp add: last_n_def)
qed

lemma ingest_eq:
  "length (vectors self) = length (losses self) \<Longrightarrow>
     ingest self vector loss =
       self\<lparr>vectors := last_n 10000 (vectors self @ [vector]),
            losses := last_n 10000 (losses self @ [loss])\<rparr>"
  by (simp add: ingest_def Let_def last_n_short)

lemma zdl_ingest_eq:
  "length (z_vectors self) = length (z_losses self) \<Longrightarrow>
     zdl_ingest self vector loss =
       self\<lparr>z_vectors := last_n 10000 (z_vectors self @ [vector]),
            z_losses := last_n 10000 (z_losses self @ [loss])\<rparr>"
  by (simp add: zdl_ingest_def Let_def last_n_short)

lemma ingest_all_snoc:
  "ingest_all self (samples @ [(v, l)]) = ingest (ingest_all self samples) v l"
  by (simp add: ingest_all_def)

lemma zdl_ingest_all_snoc:
  "zdl_ingest_all self (samples @ [(v, l)]) = zdl_ingest (zdl_ingest_all self samples) v l"
  by (simp add: zdl_ingest_all_def)

lemma window_step:
  "map f (last_n 10000 (samples @ [s])) = last_n 10000 (map f (last_n 10000 samples) @ [f s])"
proof -
  have "last_n 10000 (samples @ [s]) = last_n 10000 (last_n 10000 samples @ [s])"
    by (simp add: last_n_snoc)
  then show ?thesis
    by (simp add: map_last_n)
qed

lemma ingest_all_window:
  "vectors (ingest_all Superkernel samples) = map fst (last_n 10000 samples)
   \<and> losses (ingest_all Superkernel samples) = map snd (last_n 10000 samples)"
proof (induction samples rule: rev_induct)
  case Nil
  show ?case by (simp add: ingest_all_def Superkernel_def last_n_def)
next
  case (snoc s samples)
  obtain v l where s: "s = (v, l)" by (cases s)
  have len: "length (vectors (ingest_all Superkernel samples))
             = length (losses (ingest_all Superkernel samples))"
    using snoc by simp
  show ?case
    using snoc window_step [of fst samples s] window_step [of snd samples s]
    by (simp add: s ingest_all_snoc ingest_eq [OF len])
qed

lemma zdl_ingest_all_window:
  "z_vectors (zdl_ingest_all SuperkernelZDL samples) = map fst (last_n 10000 samples)
   \<and> z_losses (zdl_ingest_all SuperkernelZDL samples) = map snd (last_n 10000 samples)"
proof (induction samples rule: rev_induct)
  case Nil
  show ?case by (simp add: zdl_ingest_all_def SuperkernelZDL_def last_n_def)
next
  case (snoc s samples)
  obtain v l where s: "s = (v, l)" by (cases s)
  have len: "length (z_vectors (zdl_ingest_all SuperkernelZDL samples))
             = length (z_losses (zdl_ingest_all SuperkernelZDL samples))"
    using snoc by simp
  show ?case
    using snoc window_step [of fst samples s] window_step [of snd samples s]
    by (simp add: s zdl_ingest_all_snoc zdl_ingest_eq [OF len])
qed

text \<open>
  C5. After any sequence of \<^verbatim>\<open>ingest(vector, loss)\<close> calls on a fresh kernel, the
  vector history and the loss history have the same length, at most 10000, and they are
  the vectors and the losses of the last 10000 samples ingested, in the order of
  ingestion (of all samples when there were no more than 10000; exactly 10000 of them
  when there were more). Both kernels.
\<close>

theorem ingest_keeps_most_recent:
  "length (vectors (ingest_all Superkernel samples)) = length (losses (ingest_all Superkernel samples))
   \<and> length (vectors (ingest_all Superkernel samples)) = min 10000 (length samples)
   \<and> zip (vectors (ingest_all Superkernel samples)) (losses (ingest_all Superkernel samples))
       = drop (length samples - 10000) samples
   \<and> length (z_vectors (zdl_ingest_all SuperkernelZDL samples))
       = length (z_losses (zdl_ingest_all SuperkernelZDL samples))
   \<and> length (z_vectors (zdl_ingest_all SuperkernelZDL samples)) = min 10000 (length samples)
   \<and> zip (z_vectors (zdl_ingest_all SuperkernelZDL samples))
         (z_losses (zdl_ingest_all SuperkernelZDL samples))
       = drop (length samples - 10000) samples"
proof -
  have z: "zip (map fst xs) (map snd xs) = xs" for xs :: "(real list \<times> real) list"
    by (simp add: zip_map_fst_snd)
  show ?thesis
    using ingest_all_window [of samples] zdl_ingest_all_window [of samples]
    by (simp add: z length_last_n) (simp add: last_n_def)
qed

subsection \<open>The adaptive parameters\<close>

lemma evolve_params:
  "evolve self = Inr self' \<Longrightarrow> nu self \<le> 0.95 \<Longrightarrow> lam self \<le> 1.5 \<Longrightarrow>
     nu self \<le> nu self' \<and> nu self' \<le> 0.95 \<and> lam self \<le> lam self' \<and> lam self' \<le> 1.5"
  by (cases "hamiltonian self") (auto simp: evolve_def min_def split: if_splits)

lemma zdl_evolve_params:
  "zdl_evolve self = Inr self' \<Longrightarrow> z_nu self \<le> 0.95 \<Longrightarrow> z_lam self \<le> 1.5 \<Longrightarrow>
     z_nu self \<le> z_nu self' \<and> z_nu self' \<le> 0.95
     \<and> z_lam self \<le> z_lam self' \<and> z_lam self' \<le> 1.5"
  by (cases "zdl_hamiltonian self") (auto simp: zdl_evolve_def min_def split: if_splits)

lemma ingest_params: "nu (ingest self v l) = nu self \<and> lam (ingest self v l) = lam self"
  by (simp add: ingest_def Let_def)

lemma zdl_ingest_params:
  "z_nu (zdl_ingest self v l) = z_nu self \<and> z_lam (zdl_ingest self v l) = z_lam self"
  by (simp add: zdl_ingest_def Let_def)

lemma apply_call_params:
  "nu self \<le> 0.95 \<Longrightarrow> lam self \<le> 1.5 \<Longrightarrow>
     nu self \<le> nu (apply_call self c) \<and> nu (apply_call self c) \<le> 0.95
     \<and> lam self \<le> lam (apply_call self c) \<and> lam (apply_call self c) \<le> 1.5"
proof (cases c)
  case (Ingest v l)
  assume "nu self \<le> 0.95" "lam self \<le> 1.5"
  then show ?thesis by (simp add: Ingest ingest_params)
next
  case Evolve
  assume b: "nu self \<le> 0.95" "lam self \<le> 1.5"
  show ?thesis
  proof (cases "evolve self")
    case (Inl exc)
    then show ?thesis using b by (simp add: Evolve)
  next
    case (Inr self')
    then show ?thesis using evolve_params [OF Inr b] by (simp add: Evolve)
  qed
qed

lemma zdl_apply_call_params:
  "z_nu self \<le> 0.95 \<Longrightarrow> z_lam self \<le> 1.5 \<Longrightarrow>
     z_nu self \<le> z_nu (zdl_apply_call self c) \<and> z_nu (zdl_apply_call self c) \<le> 0.95
     \<and> z_lam self \<le> z_lam (zdl_apply_call self c) \<and> z_lam (zdl_apply_call self c) \<le> 1.5"
proof (cases c)
  case (Ingest v l)
  assume "z_nu self \<le> 0.95" "z_lam self \<le> 1.5"
  then show ?thesis by (simp add: Ingest zdl_ingest_params)
next
  case Evolve
  assume b: "z_nu self \<le> 0.95" "z_lam self \<le> 1.5"
  show ?thesis
  proof (cases "zdl_evolve self")
    case (Inl exc)
    then show ?thesis using b by (simp add: Evolve)
  next
    case (Inr self')
    then show ?thesis using zdl_evolve_params [OF Inr b] by (simp add: Evolve)
  qed
qed

lemma run_calls_params:
  "nu self \<le> 0.95 \<Longrightarrow> lam self \<le> 1.5 \<Longrightarrow>
     nu self \<le> nu (run_calls self calls) \<and> nu (run_calls self calls) \<le> 0.95
     \<and> lam self \<le> lam (run_calls self calls) \<and> lam (run_calls self calls) \<le> 1.5"
proof (induction calls arbitrary: self)
  case Nil
  then show ?case by (simp add: run_calls_def)
next
  case (Cons c calls)
  have s: "nu self \<le> nu (apply_call self c)" "nu (apply_call self c) \<le> 0.95"
    "lam self \<le> lam (apply_call self c)" "lam (apply_call self c) \<le> 1.5"
    using apply_call_params [OF Cons.prems, of c] by simp_all
  have r: "run_calls self (c # calls) = run_calls (apply_call self c) calls"
    by (simp add: run_calls_def)
  show ?case
    using Cons.IH [OF s(2) s(4)] s by (simp add: r)
qed

lemma zdl_run_calls_params:
  "z_nu self \<le> 0.95 \<Longrightarrow> z_lam self \<le> 1.5 \<Longrightarrow>
     z_nu self \<le> z_nu (zdl_run_calls self calls) \<and> z_nu (zdl_run_calls self calls) \<le> 0.95
     \<and> z_lam self \<le> z_lam (zdl_run_calls self calls) \<and> z_lam (zdl_run_calls self calls) \<le> 1.5"
proof (induction calls arbitrary: self)
  case Nil
  then show ?case by (simp add: zdl_run_calls_def)
next
  case (Cons c calls)
  have s: "z_nu self \<le> z_nu (zdl_apply_call self c)" "z_nu (zdl_apply_call self c) \<le> 0.95"
    "z_lam self \<le> z_lam (zdl_apply_call self c)" "z_lam (zdl_apply_call self c) \<le> 1.5"
    using zdl_apply_call_params [OF Cons.prems, of c] by simp_all
  have r: "zdl_run_calls self (c # calls) = zdl_run_calls (zdl_apply_call self c) calls"
    by (simp add: zdl_run_calls_def)
  show ?case
    using Cons.IH [OF s(2) s(4)] s by (simp add: r)
qed

text \<open>
  C6. Along every sequence of \<^verbatim>\<open>ingest\<close> and \<^verbatim>\<open>evolve\<close> calls on a fresh kernel,
  \<open>nu\<close> and \<open>lambda\<close> are monotonic and bounded: whatever calls follow (\<open>later\<close>) a
  point of the run (\<open>calls\<close>), \<open>nu\<close> afterwards is at least \<open>nu\<close> at that point and at
  most 0.95, and \<open>lambda\<close> afterwards is at least \<open>lambda\<close> at that point and at most
  1.5. Both kernels.
\<close>

theorem parameters_monotonic_and_bounded:
  "nu (run_calls Superkernel calls) \<le> nu (run_calls Superkernel (calls @ later))
   \<and> nu (run_calls Superkernel (calls @ later)) \<le> 0.95
   \<and> lam (run_calls Superkernel calls) \<le> lam (run_calls Superkernel (calls @ later))
   \<and> lam (run_calls Superkernel (calls @ later)) \<le> 1.5
   \<and> z_nu (zdl_run_calls SuperkernelZDL calls) \<le> z_nu (zdl_run_calls SuperkernelZDL (calls @ later))
   \<and> z_nu (zdl_run_calls SuperkernelZDL (calls @ later)) \<le> 0.95
   \<and> z_lam (zdl_run_calls SuperkernelZDL calls) \<le> z_lam (zdl_run_calls SuperkernelZDL (calls @ later))
   \<and> z_lam (zdl_run_calls SuperkernelZDL (calls @ later)) \<le> 1.5"
proof -
  have i: "nu Superkernel \<le> 0.95" "lam Superkernel \<le> 1.5"
    by (simp_all add: Superkernel_def)
  have zi: "z_nu SuperkernelZDL \<le> 0.95" "z_lam SuperkernelZDL \<le> 1.5"
    by (simp_all add: SuperkernelZDL_def)
  have a: "run_calls Superkernel (calls @ later) = run_calls (run_calls Superkernel calls) later"
    by (simp add: run_calls_def)
  have za: "zdl_run_calls SuperkernelZDL (calls @ later)
            = zdl_run_calls (zdl_run_calls SuperkernelZDL calls) later"
    by (simp add: zdl_run_calls_def)
  have m: "nu (run_calls Superkernel calls) \<le> 0.95" "lam (run_calls Superkernel calls) \<le> 1.5"
    using run_calls_params [OF i, of calls] by simp_all
  have zm: "z_nu (zdl_run_calls SuperkernelZDL calls) \<le> 0.95"
    "z_lam (zdl_run_calls SuperkernelZDL calls) \<le> 1.5"
    using zdl_run_calls_params [OF zi, of calls] by simp_all
  show ?thesis
    using run_calls_params [OF m, of later] zdl_run_calls_params [OF zm, of later]
    by (simp add: a za)
qed

subsection \<open>The tilted tail risk\<close>

lemma try_map_total:
  "(\<And>x. x \<in> set xs \<Longrightarrow> f x = Inr (g x)) \<Longrightarrow> try_map f xs = Inr (map g xs)"
  by (induction xs) simp_all

lemma sum_list_exp_pos: "ls \<noteq> [] \<Longrightarrow> 0 < (\<Sum>l\<leftarrow>ls. exp (c * l :: real))"
proof (induction ls)
  case Nil
  then show ?case by simp
next
  case (Cons l ls)
  have "0 \<le> (\<Sum>l\<leftarrow>ls. exp (c * l))"
    by (rule sum_list_nonneg) auto
  moreover have "0 < exp (c * l)" by simp
  ultimately show ?case by (simp add: add_pos_nonneg)
qed

lemma map_zip_same:
  "map (\<lambda>(a, b). h a b) (zip xs (map g xs)) = map (\<lambda>a. h a (g a)) xs"
  by (induction xs) simp_all

lemma mean_div: "mean xs = sum_list xs / real (length xs)"
  by (simp add: mean_eq)

lemma last_n_nonempty: "xs \<noteq> [] \<Longrightarrow> 0 < n \<Longrightarrow> last_n n xs \<noteq> []"
  by (cases xs) (auto simp: last_n_def)

lemma dynamic_cvar_eq:
  assumes "ls \<noteq> []" and "alpha \<le> 1"
    and "\<forall>loss\<in>set ls. exp_min_arg \<le> lam self * loss \<and> lam self * loss \<le> exp_max_arg"
  shows "dynamic_cvar self ls alpha =
           Inr (let total = (\<Sum>loss\<leftarrow>ls. exp (lam self * loss));
                    weighted = map (\<lambda>loss. loss * (exp (lam self * loss) / total)) ls;
                    tail = drop (nat \<lfloor>(1 - alpha) * real (length ls)\<rfloor>) (sort weighted)
                in sum_list tail / real (length tail))"
proof -
  let ?ws = "map (\<lambda>loss. exp (lam self * loss)) ls"
  let ?total = "sum_list ?ws"
  have ex: "try_map (\<lambda>loss. py_exp (lam self * loss)) ls = Inr ?ws"
    by (rule try_map_total) (use assms(3) in \<open>simp add: py_exp_in_range\<close>)
  have pos: "0 < ?total"
    using sum_list_exp_pos [OF assms(1)] by (simp add: comp_def)
  have tm: "try_map (\<lambda>weight. py_div weight ?total) ?ws = Inr (map (\<lambda>weight. weight / ?total) ?ws)"
    by (rule try_map_total) (use pos in \<open>simp add: py_div_def\<close>)
  have zp: "map (\<lambda>(loss, weight). loss * weight) (zip ls (map (\<lambda>weight. weight / ?total) ?ws))
            = map (\<lambda>loss. loss * (exp (lam self * loss) / ?total)) ls"
    using map_zip_same [of "\<lambda>a b. a * b" ls "\<lambda>loss. exp (lam self * loss) / ?total"]
    by (simp add: comp_def)
  have nn: "0 \<le> (1 - alpha) * real (length ls)"
    using assms(2) by simp
  have cut: "py_int ((1 - alpha) * real (length ls)) = \<lfloor>(1 - alpha) * real (length ls)\<rfloor>"
    using nn by (simp add: py_int_def)
  have fl: "0 \<le> \<lfloor>(1 - alpha) * real (length ls)\<rfloor>"
    using nn by simp
  show ?thesis
    unfolding dynamic_cvar_def Let_def
    using assms(1) fl by (simp only: ex tm zp and_then.simps if_False length_sort length_map
        length_zip min.idem cut slice_from_def if_True mean_div)
qed

lemma recent_cvar_eq_spec:
  assumes "\<forall>loss\<in>set (last_n 1000 (losses self)).
             exp_min_arg \<le> lam self * loss \<and> lam self * loss \<le> exp_max_arg"
  shows "recent_cvar self = Inr (spec_tail_risk (lam self) (losses self) 0.95)"
proof (cases "losses self = []")
  case True
  then show ?thesis by (simp add: recent_cvar_def spec_tail_risk_def)
next
  case False
  then have ne: "last_n 1000 (losses self) \<noteq> []"
    by (simp add: last_n_nonempty)
  have a: "(0.95 :: real) \<le> 1" by simp
  show ?thesis
    using False dynamic_cvar_eq [OF ne a assms]
    by (simp add: recent_cvar_def spec_tail_risk_def Let_def comp_def)
qed

lemma ingest_all_lam: "lam (ingest_all self samples) = lam self"
proof (induction samples rule: rev_induct)
  case Nil
  show ?case by (simp add: ingest_all_def)
next
  case (snoc s samples)
  obtain v l where s: "s = (v, l)" by (cases s)
  show ?case
    using snoc by (simp add: s ingest_all_snoc ingest_params)
qed

text \<open>
  The claim C3 as the specification words it, for every non-empty loss sequence, fails
  where \<^verbatim>\<open>math.exp\<close> leaves its range: after \<^verbatim>\<open>ingest([1.0], 1000.0)\<close> the tail risk
  is no number, \<^verbatim>\<open>math.exp(1.2 * 1000.0)\<close> raises \<^verbatim>\<open>OverflowError\<close>; after
  \<^verbatim>\<open>ingest([1.0], -1000.0)\<close> the only weight is \<^verbatim>\<open>0.0\<close> and the normalisation
  raises \<^verbatim>\<open>ZeroDivisionError\<close>.
\<close>

theorem tail_risk_out_of_range:
  "recent_cvar (ingest_all Superkernel [([1], 1000)]) = Inl OverflowError
   \<and> recent_cvar (ingest_all Superkernel [([1], - 1000)]) = Inl ZeroDivisionError"
proof -
  have l: "losses (ingest_all Superkernel [([1], x)]) = [x]" for x
    using ingest_all_window [of "[([1], x)]"] by (simp add: last_n_def)
  have m: "lam (ingest_all Superkernel [([1], x)]) = 1.2" for x
    by (simp add: ingest_all_lam) (simp add: Superkernel_def)
  show ?thesis
    by (simp add: recent_cvar_def l m last_n_def dynamic_cvar_def py_exp_def py_div_def
        exp_max_arg_def exp_min_arg_def)
qed

text \<open>
  C3, amended. When every one of the most recent 1000 stored losses has
  \<open>\<bar>lambda * loss\<bar> \<le> 700\<close> (inside the range of \<^verbatim>\<open>math.exp\<close>, with the margin that
  keeps the sum of 1000 weights a finite double), the tail risk that the composite score
  uses, \<^verbatim>\<open>dynamic_cvar\<close> with the default \<open>alpha = 0.95\<close> on the last 1000 stored
  losses, returns the computation of the specification: exponential weights, normalised,
  times the losses, sorted ascending, and the mean from index \<open>\<lfloor>(1 - alpha) * n\<rfloor>\<close> on;
  it returns 0 when no losses are stored.
\<close>

theorem tail_risk_refines_spec:
  assumes "\<forall>loss\<in>set (last_n 1000 (losses self)). \<bar>lam self * loss\<bar> \<le> 700"
  shows "recent_cvar self = Inr (spec_tail_risk (lam self) (losses self) 0.95)
         \<and> (losses self = [] \<longrightarrow> recent_cvar self = Inr 0)"
proof (intro conjI)
  have "\<forall>loss\<in>set (last_n 1000 (losses self)).
          exp_min_arg \<le> lam self * loss \<and> lam self * loss \<le> exp_max_arg"
    using assms by (auto simp: exp_min_arg_def exp_max_arg_def abs_le_iff)
  then show "recent_cvar self = Inr (spec_tail_risk (lam self) (losses self) 0.95)"
    by (rule recent_cvar_eq_spec)
  show "losses self = [] \<longrightarrow> recent_cvar self = Inr 0"
    by (simp add: recent_cvar_def)
qed

theorem tail_risk_refines_spec_witness:
  "recent_cvar (ingest_all Superkernel [([1], 1), ([1], 1)]) = Inr (1 / 2)
   \<and> recent_cvar Superkernel = Inr 0"
proof -
  let ?k = "ingest_all Superkernel [([1], 1), ([1], 1)]"
  have l: "losses ?k = [1, 1]"
    using ingest_all_window [of "[([1], 1), ([1], 1)]"] by (simp add: last_n_def)
  have m: "lam ?k = 1.2"
    by (simp add: ingest_all_lam) (simp add: Superkernel_def)
  have h: "\<forall>loss\<in>set (last_n 1000 (losses ?k)). \<bar>lam ?k * loss\<bar> \<le> 700"
    by (simp add: l m last_n_def)
  have h0: "\<forall>loss\<in>set (last_n 1000 (losses Superkernel)). \<bar>lam Superkernel * loss\<bar> \<le> 700"
    by (simp add: Superkernel_def last_n_def)
  have e: "losses Superkernel = []"
    by (simp add: Superkernel_def)
  show ?thesis
    using tail_risk_refines_spec [OF h] tail_risk_refines_spec [OF h0] e
    by (simp add: l m spec_tail_risk_def last_n_def)
qed

subsection \<open>The composite score\<close>

text \<open>
  C7. The claim says that \<^verbatim>\<open>omega_score()\<close> is finite after every sequence of ingested
  samples. \<^verbatim>\<open>Superkernel\<close> does not do that: after \<^verbatim>\<open>ingest([1.0], 0.0)\<close> and
  \<^verbatim>\<open>ingest([1.0, 2.0], 0.0)\<close> it raises \<^verbatim>\<open>IndexError\<close> in \<^verbatim>\<open>_centroid\<close>, whose
  \<^verbatim>\<open>totals\<close> has the length of the first vector only, and after
  \<^verbatim>\<open>ingest([1.0], 1000.0)\<close> it raises the \<^verbatim>\<open>OverflowError\<close> of \<^verbatim>\<open>math.exp\<close>. The
  sibling \<^verbatim>\<open>SuperkernelZDL.omega\<close> returns a score on both sequences.
\<close>

theorem omega_score_mixed_dimensions:
  "omega_score (ingest_all Superkernel [([1], 0), ([1, 2], 0)]) = Inl IndexError
   \<and> zdl_omega (zdl_ingest_all SuperkernelZDL [([1], 0), ([1, 2], 0)])
       = Inr (0.4 * ((1 / (1 + 1 / 10 ^ 9) + 1 / (sqrt 5 + 1 / 10 ^ 9)) / 2) + 0.6)
   \<and> omega_score (ingest_all Superkernel [([1], 1000)]) = Inl OverflowError
   \<and> zdl_omega (zdl_ingest_all SuperkernelZDL [([1], 1000)]) = Inr (- 199)"
proof -
  have v: "vectors (ingest_all Superkernel [([1], 0), ([1, 2], 0)]) = [[1], [1, 2]]"
    using ingest_all_window [of "[([1], 0), ([1, 2], 0)]"] by (simp add: last_n_def)
  have c: "centroid [[1], [1, 2]] = Inl IndexError"
    by (simp add: centroid_def)
  have a: "omega_score (ingest_all Superkernel [([1], 0), ([1, 2], 0)]) = Inl IndexError"
    using v c by (simp add: omega_score_def psi_def)
  have zv: "z_vectors (zdl_ingest_all SuperkernelZDL [([1], 0), ([1, 2], 0)]) = [[1], [1, 2]]"
    "z_losses (zdl_ingest_all SuperkernelZDL [([1], 0), ([1, 2], 0)]) = [0, 0]"
    using zdl_ingest_all_window [of "[([1], 0), ([1, 2], 0)]"] by (simp_all add: last_n_def)
  have zs: "zip_star [[1], [1, 2 :: real]] = [[1, 1]]"
    by (simp add: zip_star_def)
  have zc: "zdl_centroid (zdl_ingest_all SuperkernelZDL [([1], 0), ([1, 2], 0)]) = [1]"
    by (simp add: zdl_centroid_def zv zs)
  have n5: "zdl_norm [1, 2] = sqrt 5" "zdl_norm [1] = 1"
    by (simp_all add: zdl_norm_def)
  have s5: "sqrt 5 \<noteq> 0" "sqrt 5 + 1 / 10 ^ 9 \<noteq> 0"
  proof -
    have p: "0 < sqrt 5" by simp
    then show "sqrt 5 \<noteq> 0" by simp
    have "0 < sqrt 5 + 1 / 10 ^ 9"
      using p by (rule add_pos_pos) simp
    then show "sqrt 5 + 1 / 10 ^ 9 \<noteq> 0" by simp
  qed
  have zp: "zdl_psi (zdl_ingest_all SuperkernelZDL [([1], 0), ([1, 2], 0)])
            = Inr ((1 / (1 + 1 / 10 ^ 9) + 1 / (sqrt 5 + 1 / 10 ^ 9)) / 2)"
    using s5 by (simp add: zdl_psi_def zv zc zdl_cosine_similarity_def n5 zdl_dot_def py_div_def
        Let_def)
  have zt: "zdl_theta (zdl_ingest_all SuperkernelZDL [([1], 0), ([1, 2], 0)]) = Inr 1"
    by (simp add: zdl_theta_def zv zc py_div_def Let_def)
  have zr: "zdl_dynamic_cvar (zdl_ingest_all SuperkernelZDL [([1], 0), ([1, 2], 0)]) 0.95 = 0"
    by (simp add: zdl_dynamic_cvar_def zv py_int_def slice_from_def Let_def)
  have b: "zdl_omega (zdl_ingest_all SuperkernelZDL [([1], 0), ([1, 2], 0)])
           = Inr (0.4 * ((1 / (1 + 1 / 10 ^ 9) + 1 / (sqrt 5 + 1 / 10 ^ 9)) / 2) + 0.6)"
    using zr by (simp add: zdl_omega_def zp zt)
  have l: "losses (ingest_all Superkernel [([1], 1000)]) = [1000]"
    "vectors (ingest_all Superkernel [([1], 1000)]) = [[1]]"
    using ingest_all_window [of "[([1], 1000)]"] by (simp_all add: last_n_def)
  have m: "lam (ingest_all Superkernel [([1], 1000)]) = 1.2"
    by (simp add: ingest_all_lam) (simp add: Superkernel_def)
  have r: "recent_cvar (ingest_all Superkernel [([1], 1000)]) = Inl OverflowError"
    by (simp add: recent_cvar_def l m last_n_def dynamic_cvar_def py_exp_def exp_max_arg_def)
  have p1: "psi (ingest_all Superkernel [([1], 1000)]) = Inr 1"
    by (simp add: psi_def l)
  have t1: "theta (ingest_all Superkernel [([1], 1000)]) = Inr 1"
    by (simp add: theta_def l centroid_def euclidean_distance_def mean_div py_div_def)
  have d: "omega_score (ingest_all Superkernel [([1], 1000)]) = Inl OverflowError"
    by (simp add: omega_score_def p1 t1 r)
  have zl: "z_vectors (zdl_ingest_all SuperkernelZDL [([1], 1000)]) = [[1]]"
    "z_losses (zdl_ingest_all SuperkernelZDL [([1], 1000)]) = [1000]"
    using zdl_ingest_all_window [of "[([1], 1000)]"] by (simp_all add: last_n_def)
  have zs1: "zip_star [[1 :: real]] = [[1]]"
    by (simp add: zip_star_def)
  have e: "zdl_omega (zdl_ingest_all SuperkernelZDL [([1], 1000)]) = Inr (- 199)"
    by (simp add: zdl_omega_def zdl_psi_def zdl_theta_def zdl_centroid_def zl zs1
        zdl_dynamic_cvar_def py_int_def slice_from_def py_div_def Let_def)
  show ?thesis
    using a b d e by simp
qed

subsection \<open>The trigger\<close>

lemma and_then_Inr: "and_then m f = Inr r \<Longrightarrow> \<exists>v. m = Inr v \<and> f v = Inr r"
  by (cases m) simp_all

lemma assess_system_health_ok:
  assumes "omega_score self = Inr w"
  shows "\<exists>hl. assess_system_health self = Inr hl \<and> h_omega hl = w"
proof -
  obtain p where p: "psi self = Inr p"
    using assms and_then_Inr unfolding omega_score_def by fast
  have "\<exists>t. theta self = Inr t"
    using assms p by (cases "theta self") (simp_all add: omega_score_def)
  then obtain t where t: "theta self = Inr t" by blast
  have "\<exists>c. recent_cvar self = Inr c"
    using assms p t by (cases "recent_cvar self") (simp_all add: omega_score_def)
  then obtain c where c: "recent_cvar self = Inr c" by blast
  have nz: "w ^ 2 + 1 / 10 ^ 9 \<noteq> 0"
  proof -
    have "0 \<le> w ^ 2" by simp
    then have "0 < w ^ 2 + 1 / 10 ^ 9" by (simp add: add_nonneg_pos)
    then show ?thesis by simp
  qed
  show ?thesis
    using nz by (simp add: assess_system_health_def hamiltonian_def assms p t c py_div_def)
qed

lemma record_state_ok:
  assumes "omega_score (kernel self) = Inr w"
  shows "\<exists>entry. record_state self now
            = Inr (self\<lparr>history := (if length (history self @ [entry]) > 1000
                                     then last_n 1000 (history self @ [entry])
                                     else history self @ [entry])\<rparr>)
          \<and> h_omega entry = w \<and> timestamp entry = now"
proof -
  obtain hl where "assess_system_health (kernel self) = Inr hl" "h_omega hl = w"
    using assess_system_health_ok [OF assms] by blast
  then show ?thesis
    by (intro exI [of _ "\<lparr>h_omega = h_omega hl, h_hamiltonian = h_hamiltonian hl, h_psi = h_psi hl,
                    h_theta = h_theta hl, h_cvar = h_cvar hl,
                    h_intervention_count = h_intervention_count hl, timestamp = now\<rparr>"])
       (simp add: record_state_def Let_def)
qed

lemma record_state_config:
  "record_state self now = Inr self1 \<Longrightarrow>
     min_omega_gain self1 = min_omega_gain self
     \<and> pose_contract_address self1 = pose_contract_address self
     \<and> kernel self1 = kernel self \<and> running self1 = running self
     \<and> interval_seconds self1 = interval_seconds self"
  by (cases "assess_system_health (kernel self)") (auto simp: record_state_def Let_def)

text \<open>
  C4. In a cycle whose snapshot has been recorded and leaves at least two snapshots in
  the history, \<^verbatim>\<open>_trigger_if_needed\<close> calls the recorder if and only if the rate
  \<open>(omega_now - omega_prev) / (t_now - t_prev)\<close>, taken as 0 when the time delta is not
  positive, is strictly positive and the gain \<open>omega_now - omega_prev\<close> is at least
  \<^verbatim>\<open>min_omega_gain\<close>; the call then passes the label \<^verbatim>\<open>TACE_Evolution\<close>, the current
  omega and the contract address, and it is the only call.
\<close>

theorem trigger_fires_iff:
  assumes "record_state self now = Inr self1" and "2 \<le> length (history self1)"
  shows
    "let n = length (history self1);
         omega_now = h_omega (history self1 ! (n - 1));
         omega_prev = h_omega (history self1 ! (n - 2));
         dt = timestamp (history self1 ! (n - 1)) - timestamp (history self1 ! (n - 2));
         rate = (if dt > 0 then (omega_now - omega_prev) / dt else 0);
         gain = omega_now - omega_prev;
         events = fst (snd (trigger_if_needed integ self now));
         call = Register_call ''TACE_Evolution'' omega_now (pose_contract_address self)
     in ((\<exists>name val address. Register_call name val address \<in> set events)
           = (rate > 0 \<and> gain \<ge> min_omega_gain self))
        \<and> (events = [] \<or> hd events = call)
        \<and> length (filter (\<lambda>e. e = call) events) = (if rate > 0 \<and> gain \<ge> min_omega_gain self then 1 else 0)"
proof -
  have c: "min_omega_gain self1 = min_omega_gain self"
    "pose_contract_address self1 = pose_contract_address self"
    using record_state_config [OF assms(1)] by simp_all
  have n: "\<not> length (history self1) < 2"
    using assms(2) by simp
  show ?thesis
    using assms(2) n
    by (cases "integ (kernel self1) ''TACE_Evolution''
                 (h_omega (history self1 ! (length (history self1) - 1)))
                 (pose_contract_address self)")
       (auto simp: trigger_if_needed_def assms(1) compute_d_omega_dt_def Let_def c
         simp del: One_nat_def)
qed
lemma omega_score_one_sample:
  assumes "\<bar>l\<bar> \<le> 500"
  shows "omega_score (Superkernel\<lparr>vectors := [[1]], losses := [l]\<rparr>) = Inr (1 - 0.2 * l)"
proof -
  let ?k = "Superkernel\<lparr>vectors := [[1]], losses := [l]\<rparr>"
  have p: "psi ?k = Inr 1"
    by (simp add: psi_def)
  have t: "theta ?k = Inr 1"
    by (simp add: theta_def centroid_def euclidean_distance_def mean_div py_div_def)
  have r: "exp_min_arg \<le> lam ?k * l" "lam ?k * l \<le> exp_max_arg"
    using assms by (simp_all add: Superkernel_def exp_min_arg_def exp_max_arg_def abs_le_iff)
  have c: "recent_cvar ?k = Inr l"
    using py_exp_in_range [OF r]
    by (simp add: recent_cvar_def last_n_def dynamic_cvar_def py_div_def py_int_def
        slice_from_def mean_div)
  show ?thesis
    by (simp add: omega_score_def p t c field_simps)
qed

theorem trigger_fires_iff_witness:
  "(\<exists>name val address. Register_call name val address \<in>
      set (fst (snd (trigger_if_needed (\<lambda>k name val address. Inr ''0xabc'')
        (TACEOracle (Superkernel\<lparr>vectors := [[1]], losses := [2.497]\<rparr>) ''0xPoSE''
           \<lparr>history := [\<lparr>h_omega = 0.5, h_hamiltonian = 0, h_psi = 0, h_theta = 0, h_cvar = 0,
                          h_intervention_count = 0, timestamp = 100\<rparr>]\<rparr>) 101))))
   \<and> \<not> (\<exists>name val address. Register_call name val address \<in>
      set (fst (snd (trigger_if_needed (\<lambda>k name val address. Inr ''0xabc'')
        (TACEOracle (Superkernel\<lparr>vectors := [[1]], losses := [2.4985]\<rparr>) ''0xPoSE''
           \<lparr>history := [\<lparr>h_omega = 0.5, h_hamiltonian = 0, h_psi = 0, h_theta = 0, h_cvar = 0,
                          h_intervention_count = 0, timestamp = 100\<rparr>]\<rparr>) 101))))"
proof -
  let ?s0 = "\<lparr>h_omega = 0.5, h_hamiltonian = 0, h_psi = 0, h_theta = 0, h_cvar = 0,
              h_intervention_count = 0, timestamp = 100 :: real\<rparr>"
  let ?o = "\<lambda>l. TACEOracle (Superkernel\<lparr>vectors := [[1]], losses := [l]\<rparr>) ''0xPoSE''
               \<lparr>history := [?s0]\<rparr>"
  let ?integ = "\<lambda>(k :: superkernel) (name :: string) (val :: real) (address :: string).
                  Inr ''0xabc'' :: error + string"
  have step: "\<exists>entry. record_state (?o l) 101 = Inr ((?o l)\<lparr>history := [?s0, entry]\<rparr>)
                \<and> h_omega entry = 1 - 0.2 * l \<and> timestamp entry = 101"
    if "\<bar>l\<bar> \<le> 500" for l
  proof -
    have "omega_score (kernel (?o l)) = Inr (1 - 0.2 * l)"
      using that by (simp add: TACEOracle_def omega_score_one_sample)
    from record_state_ok [OF this, of 101] show ?thesis
      by (simp add: TACEOracle_def)
  qed
  obtain e1 where e1: "record_state (?o 2.497) 101 = Inr ((?o 2.497)\<lparr>history := [?s0, e1]\<rparr>)"
    "h_omega e1 = 1 - 0.2 * 2.497" "timestamp e1 = 101"
    using step [of "2.497"] by auto
  obtain e2 where e2: "record_state (?o 2.4985) 101 = Inr ((?o 2.4985)\<lparr>history := [?s0, e2]\<rparr>)"
    "h_omega e2 = 1 - 0.2 * 2.4985" "timestamp e2 = 101"
    using step [of "2.4985"] by auto
  have "\<exists>name val address. Register_call name val address \<in>
          set (fst (snd (trigger_if_needed ?integ (?o 2.497) 101)))"
    using trigger_fires_iff [OF e1(1), of ?integ] e1(2,3)
    by (simp add: Let_def TACEOracle_def)
  moreover
  have "\<not> (\<exists>name val address. Register_call name val address \<in>
          set (fst (snd (trigger_if_needed ?integ (?o 2.4985) 101))))"
    using trigger_fires_iff [OF e2(1), of ?integ] e2(2,3)
    by (simp add: Let_def TACEOracle_def)
  ultimately show ?thesis by simp
qed

subsection \<open>The control loop\<close>









end
